theory Spec2Isabelle
  imports Main "HOL-Library.Word"
begin

section \<open>Strings and JavaScript value conventions\<close>

text \<open>
  A JavaScript string is a sequence of UTF-16 code units; \<open>length\<close>, \<open>startsWith\<close>,
  \<open>trim\<close> and the regular expressions of the sources all work on code units.
  String literals of the sources are written \<open>str ''...''\<close>.
\<close>

type_synonym jschar = "16 word"
type_synonym jstring = "jschar list"

definition str :: "string \<Rightarrow> jstring" where
  "str s = map of_char s"

text \<open>
  \<open>null\<close> and \<open>undefined\<close> are both \<open>None\<close>. \<open>truthy v\<close> is the test \<open>if (v)\<close> on a
  value of type \<open>string | null | undefined\<close>: the empty string is falsy as well.
  \<open>coalesce v d\<close> is \<open>v ?? d\<close>, which only replaces \<open>null\<close> and \<open>undefined\<close>.
\<close>

definition truthy :: "jstring option \<Rightarrow> bool" where
  "truthy v = (case v of None \<Rightarrow> False | Some s \<Rightarrow> s \<noteq> [])"

definition coalesce :: "'a option \<Rightarrow> 'a \<Rightarrow> 'a" where
  "coalesce v d = (case v of None \<Rightarrow> d | Some x \<Rightarrow> x)"

text \<open>
  ECMAScript's \<open>LineTerminator\<close> (what \<open>.\<close> refuses without the \<open>s\<close> flag) and the class
  \<open>\s\<close>, which is \<open>WhiteSpace\<close> together with \<open>LineTerminator\<close> and is also what
  \<open>String.prototype.trim\<close> removes.
\<close>

definition line_terminator :: "jschar \<Rightarrow> bool" where
  "line_terminator c \<longleftrightarrow> c = 0x0A \<or> c = 0x0D \<or> c = 0x2028 \<or> c = 0x2029"

definition white_space :: "jschar \<Rightarrow> bool" where
  "white_space c \<longleftrightarrow>
     c = 0x09 \<or> c = 0x0A \<or> c = 0x0B \<or> c = 0x0C \<or> c = 0x0D \<or> c = 0x20 \<or> c = 0xA0
     \<or> c = 0x1680 \<or> (0x2000 \<le> c \<and> c \<le> 0x200A) \<or> c = 0x2028 \<or> c = 0x2029
     \<or> c = 0x202F \<or> c = 0x205F \<or> c = 0x3000 \<or> c = 0xFEFF"

definition trim :: "jstring \<Rightarrow> jstring" where
  "trim s = rev (dropWhile white_space (rev (dropWhile white_space s)))"

definition startsWith :: "jstring \<Rightarrow> jstring \<Rightarrow> bool" where
  "startsWith s p \<longleftrightarrow> take (length p) s = p"

text \<open>\<open>s.replace(/\s+/g, ' ')\<close>: every maximal run of white space becomes one space.\<close>

function collapse_spaces :: "jstring \<Rightarrow> jstring" where
  "collapse_spaces [] = []"
| "collapse_spaces (c # cs) =
     (if white_space c then 0x20 # collapse_spaces (dropWhile white_space cs)
      else c # collapse_spaces cs)"
  by pat_completeness auto
termination
  by (relation "measure length") (auto simp: length_dropWhile_le less_Suc_eq_le)

section \<open>The message record and the reply templates (page.tsx)\<close>

record GmailMessage =
  msgId :: jstring
  threadId :: "jstring option"
  subject :: jstring
  fromRaw :: "jstring option"
  fromName :: "jstring option"
  fromAddress :: "jstring option"
  snippet :: jstring
  date :: "jstring option"
  internalDate :: "jstring option"
  messageIdHeader :: "jstring option"

record QuickReply =
  tplId :: jstring
  tplLabel :: jstring
  tplBody :: "GmailMessage \<Rightarrow> jstring"

definition acknowledge_body :: "GmailMessage \<Rightarrow> jstring" where
  \<open>acknowledge_body recipient =
     str ''Hi '' @ coalesce (fromName recipient) (str ''there'')
     @ str '',\<newline>\<newline>Thanks for reaching out about "'' @ subject recipient
     @ str ''". I received your message and will circle back with a full response soon.\<newline>\<newline>Best,\<newline>''\<close>

definition schedule_body :: "GmailMessage \<Rightarrow> jstring" where
  \<open>schedule_body recipient =
     str ''Hi '' @ coalesce (fromName recipient) (str ''there'')
     @ str '',\<newline>\<newline>Appreciate the note regarding "'' @ subject recipient
     @ str ''". Happy to connect'' @ [0x2014]
     @ str ''would you have time for a quick call later this week? Let me know a few windows that work for you.\<newline>\<newline>Thanks,\<newline>''\<close>

definition follow_up_body :: "GmailMessage \<Rightarrow> jstring" where
  \<open>follow_up_body recipient =
     str ''Hi '' @ coalesce (fromName recipient) (str ''there'')
     @ str '',\<newline>\<newline>Thanks for reaching out! Could you share a bit more detail about "''
     @ subject recipient
     @ str ''" so I can help faster?\<newline>\<newline>Looking forward to your reply,\<newline>''\<close>

definition QUICK_REPLIES :: "QuickReply list" where
  "QUICK_REPLIES =
     [\<lparr>tplId = str ''acknowledge'', tplLabel = str ''Acknowledgement'', tplBody = acknowledge_body\<rparr>,
      \<lparr>tplId = str ''schedule'', tplLabel = str ''Schedule a call'', tplBody = schedule_body\<rparr>,
      \<lparr>tplId = str ''follow-up'', tplLabel = str ''Ask for details'', tplBody = follow_up_body\<rparr>]"

text \<open>\<open>QUICK_REPLIES[0]?.body(message) ?? ''\<close>\<close>

definition defaultReply :: "GmailMessage \<Rightarrow> jstring" where
  "defaultReply message =
     (case QUICK_REPLIES of [] \<Rightarrow> [] | template # _ \<Rightarrow> tplBody template message)"

definition smartReply :: "GmailMessage \<Rightarrow> jstring" where
  \<open>smartReply message =
     (if \<not> truthy (fromAddress message) then defaultReply message
      else
        let cleanedSnippet = trim (collapse_spaces (snippet message));
            greeting = (if truthy (fromName message)
                        then str ''Hi '' @ coalesce (fromName message) [] @ str '',''
                        else str ''Hello,'')
        in greeting @ str ''\<newline>\<newline>Thanks for getting in touch regarding "'' @ subject message
           @ str ''". ''
           @ (if cleanedSnippet \<noteq> []
              then str ''Here's what I understood from your note: '' @ cleanedSnippet @ str ''. ''
              else [])
           @ str ''I'll review the details and follow up with the next steps shortly.\<newline>\<newline>Best regards,\<newline>'')\<close>

section \<open>Subject normalisation (reply route)\<close>

text \<open>
  The reply route computes
  \<open>payload.subject.startsWith("Re:") ? payload.subject : `Re: ${payload.subject}`\<close>
  inline; it is named here after the specification's \<open>normalizeSubject\<close>.
\<close>

definition normalizeSubject :: "jstring \<Rightarrow> jstring" where
  "normalizeSubject s = (if startsWith s (str ''Re:'') then s else str ''Re: '' @ s)"

section \<open>Sender parsing (list route)\<close>

text \<open>
  \<open>parseEmailAddress\<close> matches the header against \<open>/^(.*?)(?:\s*<(.+?)>)?$/\<close>. The three
  functions below are the backtracking matcher for that expression, one per piece,
  trying the alternatives in the order the regular-expression engine tries them.

  \<open>lazy_address acc rest\<close> is \<open>(.+?)>$\<close> after the opening bracket: \<open>acc\<close> is what group 2
  holds so far. Being lazy, the group first tries to stop (it needs one character at
  least, then \<open>>\<close> and the end of the input) and only then takes one more character,
  which must not be a line terminator.
\<close>

fun lazy_address :: "jstring \<Rightarrow> jstring \<Rightarrow> jstring option" where
  "lazy_address acc [] = None"
| "lazy_address acc (c # cs) =
     (if acc \<noteq> [] \<and> c = 0x3E \<and> cs = [] then Some acc
      else if line_terminator c then None
      else lazy_address (acc @ [c]) cs)"

text \<open>\<open><(.+?)>$\<close> at the current position.\<close>

definition bracketed :: "jstring \<Rightarrow> jstring option" where
  "bracketed s = (case s of [] \<Rightarrow> None | c # cs \<Rightarrow> if c = 0x3C then lazy_address [] cs else None)"

text \<open>
  \<open>\s*<(.+?)>$\<close>: the greedy \<open>\s*\<close> takes white space as long as it can and gives
  characters back one at a time when what follows fails.
\<close>

fun optional_group :: "jstring \<Rightarrow> jstring option" where
  "optional_group [] = bracketed []"
| "optional_group (c # cs) =
     (if white_space c
      then (case optional_group cs of Some a \<Rightarrow> Some a | None \<Rightarrow> bracketed (c # cs))
      else bracketed (c # cs))"

text \<open>
  \<open>^(.*?)(?:...)?$\<close>: \<open>acc\<close> is what the lazy group 1 holds so far. At each position the
  optional group is tried first (\<open>?\<close> is greedy); without it the end of the input must
  have been reached; otherwise group 1 takes one more character, which must not be a
  line terminator. The result is \<open>None\<close> when \<open>match\<close> returns \<open>null\<close>, and otherwise
  \<open>match[1]\<close> and \<open>match[2]\<close> (\<open>None\<close> for \<open>undefined\<close>).
\<close>

fun header_match :: "jstring \<Rightarrow> jstring \<Rightarrow> (jstring \<times> jstring option) option" where
  "header_match acc [] =
     (case optional_group [] of Some a \<Rightarrow> Some (acc, Some a) | None \<Rightarrow> Some (acc, None))"
| "header_match acc (c # cs) =
     (case optional_group (c # cs) of
        Some a \<Rightarrow> Some (acc, Some a)
      | None \<Rightarrow> if line_terminator c then None else header_match (acc @ [c]) cs)"

record ParsedAddress =
  name :: "jstring option"
  address :: "jstring option"

text \<open>\<open>s.replace(/"/g, "")\<close>\<close>

definition remove_quotes :: "jstring \<Rightarrow> jstring" where
  "remove_quotes s = filter (\<lambda>c. c \<noteq> 0x22) s"

definition parseEmailAddress :: "jstring option \<Rightarrow> ParsedAddress" where
  "parseEmailAddress headerValue =
     (if \<not> truthy headerValue then \<lparr>name = None, address = None\<rparr>
      else
        let hv = coalesce headerValue [] in
        (case header_match [] hv of
           None \<Rightarrow> \<lparr>name = None, address = Some hv\<rparr>
         | Some (m1, m2) \<Rightarrow>
             let nm = (if truthy m2 then Some (trim (remove_quotes m1)) else None);
                 addr = coalesce m2 m1
             in \<lparr>name = (if truthy nm then nm else None), address = Some (trim addr)\<rparr>))"

section \<open>The remote mailbox and the HTTP surface\<close>

text \<open>
  A thrown value is either an \<open>Error\<close> object with its message or something else; the
  route handlers do not look at it, the page reads the message of an \<open>Error\<close>.
\<close>

datatype exn = Error jstring | Thrown

text \<open>
  The Gmail client (\<open>createGmailClient\<close> of \<open>@/lib/google\<close>, a wrapper of the Google API
  library) is outside the repository's sources: the outcome of each remote operation is
  a parameter, and every function that talks to the mailbox returns, next to its result,
  the list of remote calls it issued, in the order it issued them.
\<close>

record MessageHeader =
  hdrName :: "jstring option"
  hdrValue :: "jstring option"

record MessageStub =
  stubId :: "jstring option"
  stubThreadId :: "jstring option"

record MessageDetail =
  payloadHeaders :: "MessageHeader list option"
  detailThreadId :: "jstring option"
  detailSnippet :: "jstring option"
  detailInternalDate :: "jstring option"

datatype call =
    MessagesList "jstring list" jstring nat
  | MessagesGet jstring jstring "jstring list"
  | MessagesSend jstring "jstring option"
  | MessagesModify jstring "jstring list" "jstring list"

record GmailClient =
  messages_list :: "exn + MessageStub list option"
  messages_get :: "jstring \<Rightarrow> exn + MessageDetail"
  messages_send :: "jstring \<Rightarrow> jstring option \<Rightarrow> exn + unit"
  messages_modify :: "jstring \<Rightarrow> exn + unit"

text \<open>
  \<open>toBase64\<close> stands for Node's \<open>Buffer.from(s).toString("base64")\<close>.
\<close>

record Env =
  createGmailClient :: "jstring \<Rightarrow> jstring option \<Rightarrow> exn + GmailClient"
  toBase64 :: "jstring \<Rightarrow> jstring"

text \<open>The value of \<open>await getServerSession(authOptions)\<close> is a session or \<open>null\<close>.\<close>

record Session =
  accessToken :: "jstring option"
  refreshToken :: "jstring option"

datatype json = MessagesJson "GmailMessage list" | ErrorJson jstring | OkJson

record Response =
  status :: nat
  json :: json

text \<open>\<open>response.ok\<close>\<close>

definition ok :: "Response \<Rightarrow> bool" where
  "ok response \<longleftrightarrow> 200 \<le> status response \<and> status response \<le> 299"

text \<open>\<open>session?.accessToken\<close> and \<open>session.refreshToken\<close>\<close>

definition session_accessToken :: "Session option \<Rightarrow> jstring option" where
  "session_accessToken session = (case session of None \<Rightarrow> None | Some s \<Rightarrow> accessToken s)"

definition session_refreshToken :: "Session option \<Rightarrow> jstring option" where
  "session_refreshToken session = (case session of None \<Rightarrow> None | Some s \<Rightarrow> refreshToken s)"

section \<open>The list route (api/gmail/list/route.ts)\<close>

definition METADATA_HEADERS :: "jstring list" where
  "METADATA_HEADERS = [str ''Subject'', str ''From'', str ''Date'', str ''Message-ID'']"

text \<open>\<open>headers?.find((header) => header.name === key)?.value ?? null\<close>\<close>

definition headerValue :: "MessageHeader list option \<Rightarrow> jstring \<Rightarrow> jstring option" where
  "headerValue headers key =
     (case headers of
        None \<Rightarrow> None
      | Some hs \<Rightarrow>
          (case find (\<lambda>header. hdrName header = Some key) hs of
             None \<Rightarrow> None
           | Some header \<Rightarrow> hdrValue header))"

text \<open>The record built from an unread entry and the detail fetched for it.\<close>

definition enriched :: "jstring \<Rightarrow> MessageStub \<Rightarrow> MessageDetail \<Rightarrow> GmailMessage" where
  "enriched ident entry detail =
     (let headers = Some (coalesce (payloadHeaders detail) []);
          subj = coalesce (headerValue headers (str ''Subject'')) (str ''(no subject)'');
          fromHeader = headerValue headers (str ''From'');
          dateHeader = headerValue headers (str ''Date'');
          messageIdHdr = headerValue headers (str ''Message-ID'');
          parsed = parseEmailAddress fromHeader
      in \<lparr>msgId = ident,
          threadId = (case stubThreadId entry of
                        Some t \<Rightarrow> Some t
                      | None \<Rightarrow> detailThreadId detail),
          subject = subj,
          fromRaw = fromHeader,
          fromName = name parsed,
          fromAddress = address parsed,
          snippet = coalesce (detailSnippet detail) [],
          date = dateHeader,
          internalDate = detailInternalDate detail,
          messageIdHeader = messageIdHdr\<rparr>)"

text \<open>
  The asynchronous function mapped over the unread entries: \<open>null\<close> for an entry without
  identifier, otherwise one \<open>users.messages.get\<close> and the enriched record, or the
  rejection of that lookup.
\<close>

definition enrich :: "GmailClient \<Rightarrow> MessageStub \<Rightarrow> (exn + GmailMessage option) \<times> call list" where
  "enrich gmail entry =
     (if \<not> truthy (stubId entry) then (Inr None, [])
      else
        let ident = coalesce (stubId entry) [];
            getCall = MessagesGet ident (str ''metadata'') METADATA_HEADERS
        in (case messages_get gmail ident of
              Inl e \<Rightarrow> (Inl e, [getCall])
            | Inr detail \<Rightarrow> (Inr (Some (enriched ident entry detail)), [getCall])))"

text \<open>
  \<open>Promise.all\<close>: the results in the order of the promises when all are fulfilled, a
  rejection as soon as one of them rejects. Which rejection wins depends on timing; the
  handler that catches it does not look at it, and the first in list order is taken here.
\<close>

fun promise_all :: "(exn + 'a) list \<Rightarrow> exn + 'a list" where
  "promise_all [] = Inr []"
| "promise_all (r # rs) =
     (case r of
        Inl e \<Rightarrow> Inl e
      | Inr v \<Rightarrow> (case promise_all rs of Inl e \<Rightarrow> Inl e | Inr vs \<Rightarrow> Inr (v # vs)))"

text \<open>\<open>detailed.filter((message) => Boolean(message))\<close>\<close>

definition non_null :: "'a option list \<Rightarrow> 'a list" where
  "non_null xs = List.map_filter (\<lambda>x. x) xs"

definition GET :: "Env \<Rightarrow> Session option \<Rightarrow> Response \<times> call list" where
  "GET env session =
     (if \<not> truthy (session_accessToken session)
      then (\<lparr>status = 401, json = ErrorJson (str ''Unauthorized'')\<rparr>, [])
      else
        let failed = \<lparr>status = 500, json = ErrorJson (str ''Failed to load messages'')\<rparr> in
        (case createGmailClient env (coalesce (session_accessToken session) [])
                (session_refreshToken session) of
           Inl e \<Rightarrow> (failed, [])
         | Inr gmail \<Rightarrow>
             let listCall = MessagesList [str ''INBOX''] (str ''is:unread'') 15 in
             (case messages_list gmail of
                Inl e \<Rightarrow> (failed, [listCall])
              | Inr data \<Rightarrow>
                  let entries = coalesce data [] in
                  if entries = [] then (\<lparr>status = 200, json = MessagesJson []\<rparr>, [listCall])
                  else
                    let lookups = map (enrich gmail) entries;
                        calls = listCall # concat (map snd lookups)
                    in (case promise_all (map fst lookups) of
                          Inl e \<Rightarrow> (failed, calls)
                        | Inr detailed \<Rightarrow>
                            (\<lparr>status = 200, json = MessagesJson (non_null detailed)\<rparr>, calls)))))"

section \<open>The reply route (api/gmail/reply/route.ts)\<close>

text \<open>
  The fields the route reads from the request body, at their declared types: each a
  string or absent.
\<close>

record ReplyPayload =
  p_messageId :: "jstring option"
  p_threadId :: "jstring option"
  p_to :: "jstring option"
  p_subject :: "jstring option"
  p_body :: "jstring option"
  p_messageHeaderId :: "jstring option"

text \<open>
  What \<open>await request.json()\<close> finds in the request: a body that is not JSON, on which
  the call rejects with some error; the JSON value \<open>null\<close>; or a value whose properties
  can be read, which is an object with the fields above or a number, string, boolean or
  array, on which all of them read as absent.
\<close>

datatype request_json = Unparsable exn | JsonNull | JsonPayload ReplyPayload

text \<open>
  Reading \<open>payload.messageId\<close> of \<open>null\<close> throws a \<open>TypeError\<close>. Its message is the
  engine's (this is V8's) and nothing in the sources reads it.
\<close>

definition null_property_read :: exn where
  "null_property_read = Error (str ''Cannot read properties of null (reading 'messageId')'')"

record EncodedEmailInput =
  e_to :: jstring
  e_subject :: jstring
  e_body :: jstring
  e_inReplyTo :: "jstring option"

text \<open>\<open>lines.join("\n")\<close>\<close>

fun join_lines :: "jstring list \<Rightarrow> jstring" where
  "join_lines [] = []"
| "join_lines [l] = l"
| "join_lines (l # ls) = l @ 0x0A # join_lines ls"

text \<open>\<open>.replace(/\+/g, "-").replace(/\//g, "_").replace(/=+$/, "")\<close>\<close>

definition url_safe :: "jstring \<Rightarrow> jstring" where
  "url_safe s =
     rev (dropWhile (\<lambda>c. c = 0x3D)
       (rev (map (\<lambda>c. if c = 0x2F then 0x5F else c) (map (\<lambda>c. if c = 0x2B then 0x2D else c) s))))"

definition encodeEmail :: "(jstring \<Rightarrow> jstring) \<Rightarrow> EncodedEmailInput \<Rightarrow> jstring" where
  \<open>encodeEmail base64 inp =
     (let headers = [str ''To: '' @ e_to inp,
                     str ''Subject: '' @ e_subject inp,
                     str ''Content-Type: text/plain; charset="UTF-8"'',
                     str ''Content-Transfer-Encoding: 7bit''];
          headers' = (if truthy (e_inReplyTo inp)
                      then headers @ [str ''In-Reply-To: '' @ coalesce (e_inReplyTo inp) [],
                                      str ''References: '' @ coalesce (e_inReplyTo inp) []]
                      else headers);
          lines = headers' @ [[], e_body inp]
      in url_safe (base64 (join_lines lines)))\<close>

text \<open>
  The handler either returns a response or throws (\<open>Inl\<close>): the parse of the body and the
  field reads of the validation come after the authentication check and before the
  \<open>try\<close> block.
\<close>

definition POST :: "Env \<Rightarrow> Session option \<Rightarrow> request_json \<Rightarrow> (exn + Response) \<times> call list" where
  "POST env session request =
     (if \<not> truthy (session_accessToken session)
      then (Inr \<lparr>status = 401, json = ErrorJson (str ''Unauthorized'')\<rparr>, [])
      else
        (case request of
           Unparsable e \<Rightarrow> (Inl e, [])
         | JsonNull \<Rightarrow> (Inl null_property_read, [])
         | JsonPayload payload \<Rightarrow>
             if \<not> truthy (p_messageId payload) \<or> \<not> truthy (p_threadId payload)
                \<or> \<not> truthy (p_to payload) \<or> \<not> truthy (p_subject payload)
                \<or> \<not> truthy (p_body payload)
             then (Inr \<lparr>status = 400, json = ErrorJson (str ''Missing required fields'')\<rparr>, [])
             else
               let failed = \<lparr>status = 500, json = ErrorJson (str ''Failed to send reply'')\<rparr> in
               (case createGmailClient env (coalesce (session_accessToken session) [])
                       (session_refreshToken session) of
                  Inl e \<Rightarrow> (Inr failed, [])
                | Inr gmail \<Rightarrow>
                    let raw = encodeEmail (toBase64 env)
                                \<lparr>e_to = coalesce (p_to payload) [],
                                 e_subject = normalizeSubject (coalesce (p_subject payload) []),
                                 e_body = coalesce (p_body payload) [],
                                 e_inReplyTo = p_messageHeaderId payload\<rparr>;
                        sendCall = MessagesSend raw (p_threadId payload)
                    in (case messages_send gmail raw (p_threadId payload) of
                          Inl e \<Rightarrow> (Inr failed, [sendCall])
                        | Inr _ \<Rightarrow>
                            let ident = coalesce (p_messageId payload) [];
                                modifyCall = MessagesModify ident [str ''UNREAD''] [str ''STARRED'']
                            in (case messages_modify gmail ident of
                                  Inl e \<Rightarrow> (Inr failed, [sendCall, modifyCall])
                                | Inr _ \<Rightarrow>
                                    (Inr \<lparr>status = 200, json = OkJson\<rparr>,
                                     [sendCall, modifyCall]))))))"

section \<open>The page (page.tsx): sending replies\<close>

record ClientState =
  messages :: "GmailMessage list"
  loadingMessages :: bool
  sendingId :: "jstring option"
  replyDrafts :: "jstring \<rightharpoonup> jstring"
  error :: "jstring option"
  success :: "jstring option"

text \<open>
  \<open>fetch('/api/gmail/reply', ...)\<close> either throws or yields the route's response; the
  remote calls made while it runs are returned with it.
\<close>

type_synonym fetch_reply = "ReplyPayload \<Rightarrow> (exn + Response) \<times> call list"

text \<open>
  The page posts \<open>JSON.stringify\<close> of an object, which the route parses back to that
  object. On such a body the handler always returns a response (\<open>POST_object_responds\<close>
  below), so the result here is never \<open>Inl\<close>.
\<close>

definition reply_route :: "Env \<Rightarrow> Session option \<Rightarrow> fetch_reply" where
  "reply_route env session payload = POST env session (JsonPayload payload)"

text \<open>The JSON body the page posts for a message.\<close>

definition reply_request :: "GmailMessage \<Rightarrow> jstring option \<Rightarrow> ReplyPayload" where
  "reply_request message draft =
     \<lparr>p_messageId = Some (msgId message),
      p_threadId = threadId message,
      p_to = (case fromAddress message of Some a \<Rightarrow> Some a | None \<Rightarrow> fromRaw message),
      p_subject = Some (subject message),
      p_body = draft,
      p_messageHeaderId = messageIdHeader message\<rparr>"

text \<open>\<open>payload.error\<close> of a response body\<close>

definition json_error :: "json \<Rightarrow> jstring option" where
  "json_error j = (case j of ErrorJson e \<Rightarrow> Some e | _ \<Rightarrow> None)"

definition handleSendReply :: "fetch_reply \<Rightarrow> GmailMessage \<Rightarrow> ClientState \<Rightarrow> ClientState \<times> call list" where
  "handleSendReply fetch message st =
     (if \<not> truthy (replyDrafts st (msgId message)) then (st, [])
      else
        let st1 = st\<lparr>sendingId := Some (msgId message), error := None\<rparr>;
            (result, calls) = fetch (reply_request message (replyDrafts st (msgId message)));
            outcome = (case result of
                         Inl e \<Rightarrow> Inl e
                       | Inr response \<Rightarrow>
                           if \<not> ok response
                           then Inl (Error (coalesce (json_error (json response))
                                              (str ''Failed to send reply'')))
                           else Inr ());
            st2 = (case outcome of
                     Inr _ \<Rightarrow>
                       st1\<lparr>success := Some (str ''Reply sent to ''
                                     @ (case fromName message of
                                          Some n \<Rightarrow> n
                                        | None \<Rightarrow> coalesce (fromAddress message) (str ''recipient''))),
                           messages := filter (\<lambda>item. msgId item \<noteq> msgId message) (messages st1)\<rparr>
                   | Inl e \<Rightarrow>
                       st1\<lparr>error := Some (case e of
                                           Error msg \<Rightarrow> msg
                                         | Thrown \<Rightarrow> str ''Failed to send reply'')\<rparr>)
        in (st2\<lparr>sendingId := None\<rparr>, calls))"

text \<open>
  The Send button of a message is rendered with
  \<open>disabled={sendingId === message.id || !replyDrafts[message.id]?.trim()}\<close> and
  \<open>onClick={() => handleSendReply(message)}\<close>; a disabled button does not run its handler.
\<close>

definition sendDisabled :: "ClientState \<Rightarrow> GmailMessage \<Rightarrow> bool" where
  "sendDisabled st message \<longleftrightarrow>
     sendingId st = Some (msgId message)
     \<or> \<not> truthy (map_option trim (replyDrafts st (msgId message)))"

definition clickSendReply :: "fetch_reply \<Rightarrow> GmailMessage \<Rightarrow> ClientState \<Rightarrow> ClientState \<times> call list" where
  "clickSendReply fetch message st =
     (if sendDisabled st message then (st, []) else handleSendReply fetch message st)"

text \<open>
  \<open>handleAutoAnswerAll\<close>: one message after the other, skipping those whose draft is
  empty after trimming.
\<close>

fun answer_each :: "fetch_reply \<Rightarrow> GmailMessage list \<Rightarrow> ClientState \<Rightarrow> ClientState \<times> call list" where
  "answer_each fetch [] st = (st, [])"
| "answer_each fetch (message # rest) st =
     (if \<not> truthy (map_option trim (replyDrafts st (msgId message)))
      then answer_each fetch rest st
      else
        let (st1, calls1) = handleSendReply fetch message st;
            (st2, calls2) = answer_each fetch rest st1
        in (st2, calls1 @ calls2))"

definition handleAutoAnswerAll :: "fetch_reply \<Rightarrow> ClientState \<Rightarrow> ClientState \<times> call list" where
  "handleAutoAnswerAll fetch st = answer_each fetch (messages st) st"

section \<open>Concrete inputs\<close>

text \<open>
  The inputs at which the theorems below are instantiated. In \<open>env_of\<close> the identity
  stands in for the Base64 encoder: no property below depends on the encoding.
\<close>

definition preview_null :: GmailMessage where
  "preview_null =
     \<lparr>msgId = str ''m1'', threadId = Some (str ''t1''), subject = str ''Project update'',
      fromRaw = None, fromName = None, fromAddress = None,
      snippet = str ''Wanted to check  on the status.'', date = None, internalDate = None,
      messageIdHeader = None\<rparr>"

definition session1 :: "Session option" where
  "session1 = Some \<lparr>accessToken = Some (str ''ya29.token''), refreshToken = None\<rparr>"

definition detail_of :: "jstring \<Rightarrow> MessageDetail" where
  "detail_of ident =
     \<lparr>payloadHeaders =
        Some [\<lparr>hdrName = Some (str ''Subject''), hdrValue = Some (str ''Invoice'')\<rparr>,
              \<lparr>hdrName = Some (str ''From''), hdrValue = Some (str ''Alex Doe <alex@example.com>'')\<rparr>],
      detailThreadId = Some (str ''t9''),
      detailSnippet = Some (str ''Please see attached''),
      detailInternalDate = None\<rparr>"

definition entry1 :: MessageStub where
  "entry1 = \<lparr>stubId = Some (str ''m1''), stubThreadId = Some (str ''t1'')\<rparr>"

definition entry_no_id :: MessageStub where
  "entry_no_id = \<lparr>stubId = None, stubThreadId = Some (str ''t7'')\<rparr>"

definition entry2 :: MessageStub where
  "entry2 = \<lparr>stubId = Some (str ''m2''), stubThreadId = None\<rparr>"

definition mailbox_ok :: GmailClient where
  "mailbox_ok =
     \<lparr>messages_list = Inr (Some [entry1, entry_no_id, entry2]),
      messages_get = (\<lambda>ident. Inr (detail_of ident)),
      messages_send = (\<lambda>raw thread. Inr ()),
      messages_modify = (\<lambda>ident. Inr ())\<rparr>"

definition mailbox_get_fails :: GmailClient where
  "mailbox_get_fails =
     mailbox_ok\<lparr>messages_get :=
       (\<lambda>ident. if ident = str ''m2'' then Inl (Error (str ''backend error''))
                 else Inr (detail_of ident))\<rparr>"

definition mailbox_modify_fails :: GmailClient where
  "mailbox_modify_fails =
     mailbox_ok\<lparr>messages_modify := (\<lambda>ident. Inl (Error (str ''backend error'')))\<rparr>"

definition env_of :: "GmailClient \<Rightarrow> Env" where
  "env_of gmail = \<lparr>createGmailClient = (\<lambda>token refresh. Inr gmail), toBase64 = (\<lambda>s. s)\<rparr>"

definition msg1 :: GmailMessage where
  "msg1 =
     \<lparr>msgId = str ''m1'', threadId = Some (str ''t1''), subject = str ''Invoice'',
      fromRaw = Some (str ''Alex Doe <alex@example.com>''), fromName = Some (str ''Alex Doe''),
      fromAddress = Some (str ''alex@example.com''), snippet = str ''Please see attached'',
      date = None, internalDate = None, messageIdHeader = Some (str ''<abc@mail.example.com>'')\<rparr>"

definition msg2 :: GmailMessage where
  "msg2 = msg1\<lparr>msgId := str ''m2'', threadId := Some (str ''t2''), subject := str ''Re: Lunch''\<rparr>"

definition page0 :: ClientState where
  "page0 =
     \<lparr>messages = [msg1, msg2], loadingMessages = False, sendingId = None,
      replyDrafts = [str ''m1'' \<mapsto> str ''Thanks, on it.'', str ''m2'' \<mapsto> str ''Will do.''],
      error = None, success = None\<rparr>"

definition page_blank :: ClientState where
  "page_blank = page0\<lparr>replyDrafts := [str ''m1'' \<mapsto> str ''   '']\<rparr>"

definition payload1 :: ReplyPayload where
  "payload1 = reply_request msg1 (Some (str ''Thanks, on it.''))"

definition payload_blank :: ReplyPayload where
  "payload_blank = reply_request msg1 (Some (str ''   ''))"

definition payload_no_body :: ReplyPayload where
  "payload_no_body = reply_request msg1 None"

definition raw_of :: "jstring \<Rightarrow> jstring" where
  "raw_of body =
     encodeEmail (\<lambda>s. s)
       \<lparr>e_to = str ''alex@example.com'', e_subject = str ''Re: Invoice'', e_body = body,
        e_inReplyTo = Some (str ''<abc@mail.example.com>'')\<rparr>"

section \<open>Basic facts\<close>

lemma str_eq_Nil [simp]: "str s = [] \<longleftrightarrow> s = []"
  by (simp add: str_def)

lemma defaultReply_acknowledge: "defaultReply message = acknowledge_body message"
  by (simp add: defaultReply_def QUICK_REPLIES_def)


section \<open>Template engine\<close>

text \<open>
  C5. For every message whose \<open>fromAddress\<close> is null, \<open>smartReply\<close> returns exactly the
  string that the first quick-reply template (\<open>acknowledge\<close>) produces for that message.
\<close>

theorem C5_smartReply_null_address:
  assumes "fromAddress message = None"
  shows "smartReply message = defaultReply message
         \<and> defaultReply message = tplBody (hd QUICK_REPLIES) message
         \<and> tplId (hd QUICK_REPLIES) = str ''acknowledge''"
  using assms by (simp add: smartReply_def truthy_def defaultReply_def QUICK_REPLIES_def)

theorem C5_smartReply_null_address_witness:
  \<open>fromAddress preview_null = None \<and>
   smartReply preview_null = defaultReply preview_null \<and>
   smartReply preview_null =
     str ''Hi there,\<newline>\<newline>Thanks for reaching out about "Project update". I received your message and will circle back with a full response soon.\<newline>\<newline>Best,\<newline>''\<close>
proof -
  have h: "fromAddress preview_null = None"
    by (simp add: preview_null_def)
  have "tplBody (hd QUICK_REPLIES) preview_null =
     str ''Hi there,\<newline>\<newline>Thanks for reaching out about \"Project update\". I received your message and will circle back with a full response soon.\<newline>\<newline>Best,\<newline>''"
    by (simp add: QUICK_REPLIES_def acknowledge_body_def coalesce_def preview_null_def str_def)
  with h C5_smartReply_null_address [OF h] show ?thesis
    by simp
qed

section \<open>Subject normalisation\<close>

text \<open>
  C6. Subject normalisation is idempotent: normalising an already normalised subject
  changes nothing, for every string.
\<close>

theorem C6_normalizeSubject_idempotent:
  "normalizeSubject (normalizeSubject s) = normalizeSubject s"
  by (simp add: normalizeSubject_def startsWith_def str_def)

theorem C6_normalizeSubject_idempotent_witness:
  "normalizeSubject (normalizeSubject (str ''Hello'')) = str ''Re: Hello''
   \<and> normalizeSubject (normalizeSubject (str ''Re:lease'')) = str ''Re:lease''"
  using C6_normalizeSubject_idempotent [of "str ''Hello''"]
    C6_normalizeSubject_idempotent [of "str ''Re:lease''"]
  by (simp add: normalizeSubject_def startsWith_def str_def)

section \<open>Sender parsing\<close>
















section \<open>The list route\<close>

lemma promise_all_Inr:
  "\<forall>x\<in>set xs. f x = Inr (g x) \<Longrightarrow> promise_all (map f xs) = Inr (map g xs)"
  by (induction xs) auto

lemma promise_all_Inl:
  "r \<in> set rs \<Longrightarrow> isl r \<Longrightarrow> isl (promise_all rs)"
  by (induction rs) (auto split: sum.splits)

lemma non_null_map:
  "non_null (map (\<lambda>e. if P e then Some (h e) else None) xs) = map h (filter P xs)"
  by (induction xs) (auto simp: non_null_def map_filter_simps)

lemma fst_enrich_ok:
  assumes "truthy (stubId entry) \<longrightarrow>
             messages_get gmail (coalesce (stubId entry) []) = Inr (detail entry)"
  shows "fst (enrich gmail entry) =
           Inr (if truthy (stubId entry)
                then Some (enriched (coalesce (stubId entry) []) entry (detail entry)) else None)"
  using assms by (simp add: enrich_def Let_def)

lemma enrich_rejects:
  "truthy (stubId x) \<Longrightarrow> isl (messages_get gmail (coalesce (stubId x) [])) \<Longrightarrow>
   isl (fst (enrich gmail x))"
  by (auto simp: enrich_def Let_def split: sum.splits)

text \<open>
  C4. When the unread query and every lookup succeed, the result of the list operation
  is made of the enriched records of exactly the entries that carry an identifier (one
  that is present and not the empty string, which is what the test \<open>!id\<close> lets through),
  in the order of the initial list; the entries without identifier are left out and the
  response is the ordinary 200 one.
\<close>

theorem C4_list_keeps_order:
  assumes "truthy (session_accessToken session)"
    and "createGmailClient env (coalesce (session_accessToken session) [])
           (session_refreshToken session) = Inr gmail"
    and "messages_list gmail = Inr listed"
    and "\<forall>entry\<in>set (coalesce listed []). truthy (stubId entry) \<longrightarrow>
           messages_get gmail (coalesce (stubId entry) []) = Inr (detail entry)"
  shows "fst (GET env session) =
           \<lparr>status = 200,
            json = MessagesJson
                     (map (\<lambda>entry. enriched (coalesce (stubId entry) []) entry (detail entry))
                        (filter (\<lambda>entry. truthy (stubId entry)) (coalesce listed [])))\<rparr>"
proof -
  let ?entries = "coalesce listed []"
  let ?g = "\<lambda>entry. if truthy (stubId entry)
                then Some (enriched (coalesce (stubId entry) []) entry (detail entry)) else None"
  have "\<forall>entry\<in>set ?entries. (fst \<circ> enrich gmail) entry = Inr (?g entry)"
    using assms(4) fst_enrich_ok [of _ gmail detail] by simp
  then have "promise_all (map (fst \<circ> enrich gmail) ?entries) = Inr (map ?g ?entries)"
    by (rule promise_all_Inr)
  then show ?thesis
    using assms(1-3) by (simp add: GET_def Let_def non_null_map)
qed

theorem C4_list_keeps_order_witness:
  "truthy (session_accessToken session1)
   \<and> messages_list mailbox_ok = Inr (Some [entry1, entry_no_id, entry2])
   \<and> fst (GET (env_of mailbox_ok) session1) =
       \<lparr>status = 200,
        json = MessagesJson [enriched (str ''m1'') entry1 (detail_of (str ''m1'')),
                             enriched (str ''m2'') entry2 (detail_of (str ''m2''))]\<rparr>
   \<and> map msgId [enriched (str ''m1'') entry1 (detail_of (str ''m1'')),
                 enriched (str ''m2'') entry2 (detail_of (str ''m2''))] = [str ''m1'', str ''m2'']"
proof -
  let ?detail = "\<lambda>entry. detail_of (coalesce (stubId entry) [])"
  have a: "truthy (session_accessToken session1)"
    by (simp add: session1_def session_accessToken_def truthy_def)
  have c: "createGmailClient (env_of mailbox_ok) (coalesce (session_accessToken session1) [])
             (session_refreshToken session1) = Inr mailbox_ok"
    by (simp add: env_of_def)
  have l: "messages_list mailbox_ok = Inr (Some [entry1, entry_no_id, entry2])"
    by (simp add: mailbox_ok_def)
  have g: "\<forall>entry\<in>set (coalesce (Some [entry1, entry_no_id, entry2]) []).
             truthy (stubId entry) \<longrightarrow>
             messages_get mailbox_ok (coalesce (stubId entry) []) = Inr (?detail entry)"
    by (simp add: mailbox_ok_def)
  have i: "map msgId [enriched (str ''m1'') entry1 (detail_of (str ''m1'')),
                 enriched (str ''m2'') entry2 (detail_of (str ''m2''))] = [str ''m1'', str ''m2'']"
    by (simp add: enriched_def Let_def)
  from C4_list_keeps_order [OF a c l g] a l i show ?thesis
    by (simp add: coalesce_def truthy_def entry1_def entry_no_id_def entry2_def)
qed

text \<open>
  C7. If the initial unread query throws, or one of the lookups that are made (those of
  the entries with an identifier) throws, the list operation answers with status 500 and
  the generic message, and with no message list at all, whatever the other lookups
  returned.
\<close>

theorem C7_list_failure_is_total:
  assumes "truthy (session_accessToken session)"
    and "createGmailClient env (coalesce (session_accessToken session) [])
           (session_refreshToken session) = Inr gmail"
    and "isl (messages_list gmail)
         \<or> (\<exists>entries. messages_list gmail = Inr (Some entries)
              \<and> (\<exists>x\<in>set entries. truthy (stubId x)
                    \<and> isl (messages_get gmail (coalesce (stubId x) []))))"
  shows "fst (GET env session) = \<lparr>status = 500, json = ErrorJson (str ''Failed to load messages'')\<rparr>"
  using assms(3)
proof
  assume "isl (messages_list gmail)"
  then show ?thesis
    using assms(1,2) by (auto simp: GET_def Let_def isl_def)
next
  assume "\<exists>entries. messages_list gmail = Inr (Some entries)
              \<and> (\<exists>x\<in>set entries. truthy (stubId x)
                    \<and> isl (messages_get gmail (coalesce (stubId x) [])))"
  then obtain entries x where l: "messages_list gmail = Inr (Some entries)"
    and x: "x \<in> set entries" "truthy (stubId x)" "isl (messages_get gmail (coalesce (stubId x) []))"
    by blast
  have "isl (fst (enrich gmail x))"
    using x(2,3) by (rule enrich_rejects)
  moreover have "fst (enrich gmail x) \<in> set (map (fst \<circ> enrich gmail) entries)"
    using x(1) by simp
  ultimately have "isl (promise_all (map (fst \<circ> enrich gmail) entries))"
    by (intro promise_all_Inl)
  then obtain e where "promise_all (map (fst \<circ> enrich gmail) entries) = Inl e"
    by (auto simp: isl_def)
  moreover have "entries \<noteq> []" using x(1) by auto
  ultimately show ?thesis
    using assms(1,2) l by (simp add: GET_def Let_def coalesce_def)
qed

text \<open>The lookup of the first entry succeeds, that of the last one throws.\<close>

theorem C7_list_failure_is_total_witness:
  "messages_list mailbox_get_fails = Inr (Some [entry1, entry_no_id, entry2])
   \<and> messages_get mailbox_get_fails (str ''m1'') = Inr (detail_of (str ''m1''))
   \<and> isl (messages_get mailbox_get_fails (str ''m2''))
   \<and> fst (GET (env_of mailbox_get_fails) session1) =
       \<lparr>status = 500, json = ErrorJson (str ''Failed to load messages'')\<rparr>"
proof -
  have a: "truthy (session_accessToken session1)"
    by (simp add: session1_def session_accessToken_def truthy_def)
  have c: "createGmailClient (env_of mailbox_get_fails)
             (coalesce (session_accessToken session1) []) (session_refreshToken session1)
           = Inr mailbox_get_fails"
    by (simp add: env_of_def)
  have l: "messages_list mailbox_get_fails = Inr (Some [entry1, entry_no_id, entry2])"
    by (simp add: mailbox_get_fails_def mailbox_ok_def)
  have g1: "messages_get mailbox_get_fails (str ''m1'') = Inr (detail_of (str ''m1''))"
    by (simp add: mailbox_get_fails_def str_def)
  have g2: "isl (messages_get mailbox_get_fails (str ''m2''))"
    by (simp add: mailbox_get_fails_def)
  have "entry2 \<in> set [entry1, entry_no_id, entry2] \<and> truthy (stubId entry2)
        \<and> isl (messages_get mailbox_get_fails (coalesce (stubId entry2) []))"
    using g2 by (simp add: entry2_def truthy_def coalesce_def)
  with l have "isl (messages_list mailbox_get_fails)
         \<or> (\<exists>entries. messages_list mailbox_get_fails = Inr (Some entries)
              \<and> (\<exists>x\<in>set entries. truthy (stubId x)
                    \<and> isl (messages_get mailbox_get_fails (coalesce (stubId x) []))))"
    by blast
  from C7_list_failure_is_total [OF a c this] l g1 g2 show ?thesis
    by simp
qed

section \<open>The reply route\<close>

lemma POST_object_responds: "\<exists>r. fst (POST env session (JsonPayload payload)) = Inr r"
  by (simp add: POST_def Let_def split: sum.splits)

text \<open>
  On a body whose properties can be read, a request of an authenticated caller in which
  one of \<open>messageId\<close>, \<open>threadId\<close>, \<open>to\<close>, \<open>subject\<close>, \<open>body\<close> is absent is answered with
  the 400 rejection, and no remote call has been made.
\<close>

lemma POST_missing_field_rejected:
  assumes "truthy (session_accessToken session)"
    and "p_messageId payload = None \<or> p_threadId payload = None \<or> p_to payload = None
         \<or> p_subject payload = None \<or> p_body payload = None"
  shows "POST env session (JsonPayload payload) =
           (Inr \<lparr>status = 400, json = ErrorJson (str ''Missing required fields'')\<rparr>, [])"
  using assms by (auto simp: POST_def truthy_def)

text \<open>
  C8. The claim asks for the 400 rejection on every request of an authenticated caller
  in which a required field is absent. The route gives it on every body whose properties
  can be read (\<open>POST_missing_field_rejected\<close>), but it parses the body and reads
  \<open>payload.messageId\<close> before its \<open>try\<close> block: on a body that is the JSON value \<open>null\<close>,
  in which all five fields are absent, and on a body that is not JSON, the handler throws
  and returns no response, so that the caller gets no 400. No remote call is made.
\<close>

theorem C8_null_body_throws:
  assumes "truthy (session_accessToken session)"
  shows "POST env session JsonNull = (Inl null_property_read, [])
         \<and> POST env session (Unparsable e) = (Inl e, [])
         \<and> fst (POST env session JsonNull)
             \<noteq> Inr \<lparr>status = 400, json = ErrorJson (str ''Missing required fields'')\<rparr>"
  using assms by (simp add: POST_def)

theorem C8_null_body_throws_witness:
  "truthy (session_accessToken session1)
   \<and> POST (env_of mailbox_ok) session1 JsonNull = (Inl null_property_read, [])
   \<and> fst (POST (env_of mailbox_ok) session1 JsonNull)
       \<noteq> Inr \<lparr>status = 400, json = ErrorJson (str ''Missing required fields'')\<rparr>
   \<and> POST (env_of mailbox_ok) session1 (JsonPayload payload_no_body) =
       (Inr \<lparr>status = 400, json = ErrorJson (str ''Missing required fields'')\<rparr>, [])"
proof -
  have a: "truthy (session_accessToken session1)"
    by (simp add: session1_def session_accessToken_def truthy_def)
  have b: "p_body payload_no_body = None"
    by (simp add: payload_no_body_def reply_request_def)
  from C8_null_body_throws [OF a, of "env_of mailbox_ok"]
    POST_missing_field_rejected [OF a, of payload_no_body "env_of mailbox_ok"] a b
  show ?thesis
    by blast
qed

text \<open>
  C10. In both routes the authentication check comes first: without an access token the
  answer is 401 and no remote call is made, whatever the request body and the mailbox
  would have given; hence a 400 or a 500 answer is only ever given to an authenticated
  caller, and so is the failure of a handler that throws.
\<close>

theorem C10_authentication_first:
  "(\<not> truthy (session_accessToken session) \<longrightarrow>
      GET env session = (\<lparr>status = 401, json = ErrorJson (str ''Unauthorized'')\<rparr>, [])
      \<and> POST env session request
          = (Inr \<lparr>status = 401, json = ErrorJson (str ''Unauthorized'')\<rparr>, []))
   \<and> (status (fst (GET env session)) \<in> {400, 500} \<longrightarrow> truthy (session_accessToken session))
   \<and> (fst (POST env session request) = Inr r \<and> status r \<in> {400, 500} \<longrightarrow>
        truthy (session_accessToken session))
   \<and> (isl (fst (POST env session request)) \<longrightarrow> truthy (session_accessToken session))"
  by (auto simp: GET_def POST_def)

text \<open>
  Without a session, a request that would fail validation, a body that is \<open>null\<close> and a
  mailbox whose lookups fail still give 401; with a session they give 400, a thrown
  error and 500.
\<close>

theorem C10_authentication_first_witness:
  "\<not> truthy (session_accessToken None)
   \<and> GET (env_of mailbox_get_fails) None
       = (\<lparr>status = 401, json = ErrorJson (str ''Unauthorized'')\<rparr>, [])
   \<and> POST (env_of mailbox_get_fails) None (JsonPayload payload_no_body)
       = (Inr \<lparr>status = 401, json = ErrorJson (str ''Unauthorized'')\<rparr>, [])
   \<and> POST (env_of mailbox_get_fails) None JsonNull
       = (Inr \<lparr>status = 401, json = ErrorJson (str ''Unauthorized'')\<rparr>, [])
   \<and> status (fst (GET (env_of mailbox_get_fails) session1)) = 500
   \<and> fst (POST (env_of mailbox_get_fails) session1 (JsonPayload payload_no_body))
       = Inr \<lparr>status = 400, json = ErrorJson (str ''Missing required fields'')\<rparr>
   \<and> isl (fst (POST (env_of mailbox_get_fails) session1 JsonNull))
   \<and> truthy (session_accessToken session1)"
proof -
  have a: "\<not> truthy (session_accessToken None)"
    by (simp add: session_accessToken_def truthy_def)
  have b: "status (fst (GET (env_of mailbox_get_fails) session1)) = 500"
    by (simp add: GET_def session1_def session_accessToken_def session_refreshToken_def
        env_of_def mailbox_get_fails_def mailbox_ok_def truthy_def coalesce_def entry1_def
        entry_no_id_def entry2_def enrich_def Let_def str_def)
  have c: "fst (POST (env_of mailbox_get_fails) session1 (JsonPayload payload_no_body))
             = Inr \<lparr>status = 400, json = ErrorJson (str ''Missing required fields'')\<rparr>"
    by (simp add: POST_def session1_def session_accessToken_def truthy_def payload_no_body_def
        reply_request_def)
  have d: "isl (fst (POST (env_of mailbox_get_fails) session1 JsonNull))"
    by (simp add: POST_def session1_def session_accessToken_def truthy_def)
  have m: "status (fst (GET (env_of mailbox_get_fails) session1)) \<in> {400, 500}"
    using b by simp
  have n: "status \<lparr>status = 400, json = ErrorJson (str ''Missing required fields'')\<rparr>
             \<in> {400, 500}"
    by simp
  from a C10_authentication_first
         [of None "env_of mailbox_get_fails" "JsonPayload payload_no_body"]
  have u: "GET (env_of mailbox_get_fails) None
             = (\<lparr>status = 401, json = ErrorJson (str ''Unauthorized'')\<rparr>, [])
           \<and> POST (env_of mailbox_get_fails) None (JsonPayload payload_no_body)
             = (Inr \<lparr>status = 401, json = ErrorJson (str ''Unauthorized'')\<rparr>, [])"
    by blast
  from a C10_authentication_first [of None "env_of mailbox_get_fails" JsonNull]
  have v: "POST (env_of mailbox_get_fails) None JsonNull
             = (Inr \<lparr>status = 401, json = ErrorJson (str ''Unauthorized'')\<rparr>, [])"
    by blast
  from m C10_authentication_first
         [of session1 "env_of mailbox_get_fails" "JsonPayload payload_no_body"]
  have t: "truthy (session_accessToken session1)"
    by blast
  from c n C10_authentication_first
         [of session1 "env_of mailbox_get_fails" "JsonPayload payload_no_body"
           "\<lparr>status = 400, json = ErrorJson (str ''Missing required fields'')\<rparr>"]
  have t': "truthy (session_accessToken session1)"
    by blast
  from d C10_authentication_first [of session1 "env_of mailbox_get_fails" JsonNull]
  have t'': "truthy (session_accessToken session1)"
    by blast
  from a u v b c d t t' t'' show ?thesis
    by blast
qed

lemma POST_send_fails:
  assumes "truthy (session_accessToken session)"
    and "truthy (p_messageId payload)" and "truthy (p_threadId payload)"
    and "truthy (p_to payload)" and "truthy (p_subject payload)" and "truthy (p_body payload)"
    and "createGmailClient env (coalesce (session_accessToken session) [])
           (session_refreshToken session) = Inr gmail"
    and "raw = encodeEmail (toBase64 env)
                 \<lparr>e_to = coalesce (p_to payload) [],
                  e_subject = normalizeSubject (coalesce (p_subject payload) []),
                  e_body = coalesce (p_body payload) [],
                  e_inReplyTo = p_messageHeaderId payload\<rparr>"
    and "messages_send gmail raw (p_threadId payload) = Inl e"
  shows "POST env session (JsonPayload payload) =
           (Inr \<lparr>status = 500, json = ErrorJson (str ''Failed to send reply'')\<rparr>,
            [MessagesSend raw (p_threadId payload)])"
  using assms by (simp add: POST_def Let_def)

text \<open>
  What the page does with an answer that is not ok: it shows the error of the answer (or
  the default message) and leaves everything else, its collection included, as it was.
\<close>

lemma handleSendReply_not_ok:
  assumes "truthy (replyDrafts st (msgId message))"
    and "fetch (reply_request message (replyDrafts st (msgId message))) = (Inr response, calls)"
    and "\<not> ok response"
  shows "handleSendReply fetch message st =
           (st\<lparr>sendingId := None,
               error := Some (coalesce (json_error (json response)) (str ''Failed to send reply''))\<rparr>,
            calls)"
  using assms by (simp add: handleSendReply_def Let_def)

text \<open>
  C2 (as amended). When the reply submission succeeds and the label mutation that
  follows it throws, the failure is caught by the handler that also catches a failed
  submission: the operation answers with status 500 and the message
  \<open>Failed to send reply\<close>, the answer a failed submission gets (\<open>POST_send_fails\<close>), and
  not with success. Both remote calls have been issued and nothing is undone, so the
  reply is sent and the original message is left unmarked. For every message and page
  state whose send is this request, the page shows that error and keeps its collection
  as it was, the message still in it.
\<close>

theorem C2_modify_failure_reported:
  assumes "truthy (session_accessToken session)"
    and "truthy (p_messageId payload)" and "truthy (p_threadId payload)"
    and "truthy (p_to payload)" and "truthy (p_subject payload)" and "truthy (p_body payload)"
    and "createGmailClient env (coalesce (session_accessToken session) [])
           (session_refreshToken session) = Inr gmail"
    and "raw = encodeEmail (toBase64 env)
                 \<lparr>e_to = coalesce (p_to payload) [],
                  e_subject = normalizeSubject (coalesce (p_subject payload) []),
                  e_body = coalesce (p_body payload) [],
                  e_inReplyTo = p_messageHeaderId payload\<rparr>"
    and "messages_send gmail raw (p_threadId payload) = Inr ()"
    and "messages_modify gmail (coalesce (p_messageId payload) []) = Inl e"
  shows "POST env session (JsonPayload payload) =
           (Inr \<lparr>status = 500, json = ErrorJson (str ''Failed to send reply'')\<rparr>,
            [MessagesSend raw (p_threadId payload),
             MessagesModify (coalesce (p_messageId payload) []) [str ''UNREAD''] [str ''STARRED'']])
         \<and> (reply_request message (replyDrafts st (msgId message)) = payload \<longrightarrow>
              handleSendReply (reply_route env session) message st =
                (st\<lparr>sendingId := None, error := Some (str ''Failed to send reply'')\<rparr>,
                 [MessagesSend raw (p_threadId payload),
                  MessagesModify (coalesce (p_messageId payload) [])
                    [str ''UNREAD''] [str ''STARRED'']])
              \<and> messages (fst (handleSendReply (reply_route env session) message st))
                  = messages st
              \<and> success (fst (handleSendReply (reply_route env session) message st))
                  = success st)"
proof -
  let ?failed = "\<lparr>status = 500, json = ErrorJson (str ''Failed to send reply'')\<rparr>"
  let ?calls = "[MessagesSend raw (p_threadId payload),
                 MessagesModify (coalesce (p_messageId payload) []) [str ''UNREAD''] [str ''STARRED'']]"
  have route: "POST env session (JsonPayload payload) = (Inr ?failed, ?calls)"
    using assms by (simp add: POST_def Let_def)
  have page: "handleSendReply (reply_route env session) message st =
                (st\<lparr>sendingId := None, error := Some (str ''Failed to send reply'')\<rparr>, ?calls)"
    if eq: "reply_request message (replyDrafts st (msgId message)) = payload"
  proof -
    have "p_body payload = replyDrafts st (msgId message)"
      using eq by (auto simp: reply_request_def)
    with assms(6) have draft: "truthy (replyDrafts st (msgId message))"
      by simp
    have fetched: "reply_route env session (reply_request message (replyDrafts st (msgId message)))
                     = (Inr ?failed, ?calls)"
      using route eq by (simp add: reply_route_def)
    have "\<not> ok ?failed"
      by (simp add: ok_def)
    with handleSendReply_not_ok
           [of st message "reply_route env session" ?failed ?calls, OF draft fetched]
    show ?thesis
      by (simp add: json_error_def coalesce_def)
  qed
  from route page show ?thesis
    by simp
qed

theorem C2_modify_failure_reported_witness:
  "messages_send mailbox_modify_fails (raw_of (str ''Thanks, on it.'')) (Some (str ''t1'')) = Inr ()
   \<and> messages_modify mailbox_modify_fails (str ''m1'') = Inl (Error (str ''backend error''))
   \<and> reply_request msg1 (replyDrafts page0 (msgId msg1)) = payload1
   \<and> POST (env_of mailbox_modify_fails) session1 (JsonPayload payload1) =
       (Inr \<lparr>status = 500, json = ErrorJson (str ''Failed to send reply'')\<rparr>,
        [MessagesSend (raw_of (str ''Thanks, on it.'')) (Some (str ''t1'')),
         MessagesModify (str ''m1'') [str ''UNREAD''] [str ''STARRED'']])
   \<and> handleSendReply (reply_route (env_of mailbox_modify_fails) session1) msg1 page0 =
       (page0\<lparr>sendingId := None, error := Some (str ''Failed to send reply'')\<rparr>,
        [MessagesSend (raw_of (str ''Thanks, on it.'')) (Some (str ''t1'')),
         MessagesModify (str ''m1'') [str ''UNREAD''] [str ''STARRED'']])
   \<and> messages (fst (handleSendReply (reply_route (env_of mailbox_modify_fails) session1) msg1 page0))
       = messages page0"
proof -
  have a: "truthy (session_accessToken session1)"
    by (simp add: session1_def session_accessToken_def truthy_def)
  have f: "truthy (p_messageId payload1)" "truthy (p_threadId payload1)" "truthy (p_to payload1)"
    "truthy (p_subject payload1)" "truthy (p_body payload1)"
    by (simp_all add: payload1_def reply_request_def msg1_def truthy_def)
  have c: "createGmailClient (env_of mailbox_modify_fails)
             (coalesce (session_accessToken session1) []) (session_refreshToken session1)
           = Inr mailbox_modify_fails"
    by (simp add: env_of_def)
  have r: "raw_of (str ''Thanks, on it.'') =
             encodeEmail (toBase64 (env_of mailbox_modify_fails))
               \<lparr>e_to = coalesce (p_to payload1) [],
                e_subject = normalizeSubject (coalesce (p_subject payload1) []),
                e_body = coalesce (p_body payload1) [],
                e_inReplyTo = p_messageHeaderId payload1\<rparr>"
    by (simp add: raw_of_def env_of_def payload1_def reply_request_def msg1_def coalesce_def
        normalizeSubject_def startsWith_def str_def)
  have s: "messages_send mailbox_modify_fails (raw_of (str ''Thanks, on it.''))
             (p_threadId payload1) = Inr ()"
    by (simp add: mailbox_modify_fails_def mailbox_ok_def)
  have m: "messages_modify mailbox_modify_fails (coalesce (p_messageId payload1) [])
             = Inl (Error (str ''backend error''))"
    by (simp add: mailbox_modify_fails_def)
  have q: "reply_request msg1 (replyDrafts page0 (msgId msg1)) = payload1"
    by (simp add: payload1_def page0_def msg1_def str_def)
  have i: "p_threadId payload1 = Some (str ''t1'')" "coalesce (p_messageId payload1) [] = str ''m1''"
    by (simp_all add: payload1_def reply_request_def msg1_def coalesce_def)
  from C2_modify_failure_reported [OF a f c r s m, of msg1 page0] q s m
  show ?thesis
    by (simp add: i)
qed

text \<open>
  The claim as it was written fails: the submission succeeds, the mutation throws, and
  the route does not report success; the page shows the error and keeps the message in
  its collection.
\<close>

theorem C2_modify_failure_counterexample:
  "messages_send mailbox_modify_fails (raw_of (str ''Thanks, on it.'')) (Some (str ''t1'')) = Inr ()
   \<and> isl (messages_modify mailbox_modify_fails (str ''m1''))
   \<and> fst (POST (env_of mailbox_modify_fails) session1 (JsonPayload payload1))
       = Inr \<lparr>status = 500, json = ErrorJson (str ''Failed to send reply'')\<rparr>
   \<and> \<not> ok \<lparr>status = 500, json = ErrorJson (str ''Failed to send reply'')\<rparr>
   \<and> fst (POST (env_of mailbox_modify_fails) session1 (JsonPayload payload1))
       \<noteq> Inr \<lparr>status = 200, json = OkJson\<rparr>
   \<and> error (fst (handleSendReply (reply_route (env_of mailbox_modify_fails) session1) msg1 page0))
       = Some (str ''Failed to send reply'')
   \<and> messages (fst (handleSendReply (reply_route (env_of mailbox_modify_fails) session1) msg1 page0))
       = [msg1, msg2]"
  by (simp add: handleSendReply_def reply_route_def POST_def ok_def json_error_def Let_def
      session1_def session_accessToken_def session_refreshToken_def env_of_def
      mailbox_modify_fails_def mailbox_ok_def truthy_def coalesce_def payload1_def
      reply_request_def msg1_def msg2_def page0_def str_def)

section \<open>The page\<close>

lemma handleSendReply_keeps_drafts:
  "replyDrafts (fst (handleSendReply fetch message st)) = replyDrafts st"
  by (simp add: handleSendReply_def Let_def split: prod.splits sum.splits)

text \<open>The bulk path behaves as if the messages with a blank draft were not listed.\<close>

lemma answer_each_skips_blank:
  "answer_each fetch ms st =
     answer_each fetch
       (filter (\<lambda>m. truthy (map_option trim (replyDrafts st (msgId m)))) ms) st"
proof (induction ms arbitrary: st)
  case Nil
  show ?case by simp
next
  case (Cons m ms)
  show ?case
  proof (cases "truthy (map_option trim (replyDrafts st (msgId m)))")
    case False
    with Cons.IH [of st] show ?thesis by simp
  next
    case True
    obtain st1 calls1 where h: "handleSendReply fetch m st = (st1, calls1)"
      by (cases "handleSendReply fetch m st")
    then have "replyDrafts st1 = replyDrafts st"
      using handleSendReply_keeps_drafts [of fetch m st] by simp
    with Cons.IH [of st1] True h show ?thesis by simp
  qed
qed

text \<open>
  C1 (as amended). A draft that is empty after trimming is not sent by the page and no
  remote call is made for it: the Send button is disabled and does nothing, and the bulk
  path \<open>handleAutoAnswerAll\<close> skips the message; no failure is reported in either case.
  The send operation itself only tests for an empty draft: on an absent or empty draft
  \<open>handleSendReply\<close> returns at once and leaves the page state as it was, and the reply
  route rejects a request object whose \<open>body\<close> field is absent or empty with the 400
  validation answer; neither makes a remote call.
\<close>

theorem C1_empty_draft_not_sent:
  "(\<not> truthy (map_option trim (replyDrafts st (msgId message))) \<longrightarrow>
      clickSendReply fetch message st = (st, []))
   \<and> handleAutoAnswerAll fetch st =
       answer_each fetch
         (filter (\<lambda>m. truthy (map_option trim (replyDrafts st (msgId m)))) (messages st)) st
   \<and> (\<not> truthy (replyDrafts st (msgId message)) \<longrightarrow> handleSendReply fetch message st = (st, []))
   \<and> (truthy (session_accessToken session) \<and> \<not> truthy (p_body payload) \<longrightarrow>
        POST env session (JsonPayload payload) =
          (Inr \<lparr>status = 400, json = ErrorJson (str ''Missing required fields'')\<rparr>, []))"
  using answer_each_skips_blank [of fetch "messages st" st]
  by (simp add: clickSendReply_def sendDisabled_def handleSendReply_def POST_def
      handleAutoAnswerAll_def)

text \<open>
  In \<open>page_blank\<close> the draft of the first message is three spaces and the second message
  has no draft.
\<close>

theorem C1_empty_draft_not_sent_witness:
  "map (\<lambda>m. map_option trim (replyDrafts page_blank (msgId m))) (messages page_blank)
     = [Some [], None]
   \<and> clickSendReply (reply_route (env_of mailbox_ok) session1) msg1 page_blank = (page_blank, [])
   \<and> handleAutoAnswerAll (reply_route (env_of mailbox_ok) session1) page_blank = (page_blank, [])
   \<and> replyDrafts page_blank (msgId msg2) = None
   \<and> handleSendReply (reply_route (env_of mailbox_ok) session1) msg2 page_blank = (page_blank, [])
   \<and> p_body payload_no_body = None
   \<and> POST (env_of mailbox_ok) session1 (JsonPayload payload_no_body) =
       (Inr \<lparr>status = 400, json = ErrorJson (str ''Missing required fields'')\<rparr>, [])"
proof -
  have t1: "map_option trim (replyDrafts page_blank (msgId msg1)) = Some []"
    by (simp add: page_blank_def page0_def msg1_def trim_def white_space_def str_def)
  have t2: "map_option trim (replyDrafts page_blank (msgId msg2)) = None"
    by (simp add: page_blank_def page0_def msg1_def msg2_def str_def)
  have ms: "messages page_blank = [msg1, msg2]"
    by (simp add: page_blank_def page0_def)
  have d: "map (\<lambda>m. map_option trim (replyDrafts page_blank (msgId m))) (messages page_blank)
     = [Some [], None]"
    by (simp add: t1 t2 ms)
  have d1: "\<not> truthy (map_option trim (replyDrafts page_blank (msgId msg1)))"
    unfolding t1 by (simp add: truthy_def)
  have n2: "\<not> truthy (map_option trim (replyDrafts page_blank (msgId msg2)))"
    unfolding t2 by (simp add: truthy_def)
  have f: "filter (\<lambda>m. truthy (map_option trim (replyDrafts page_blank (msgId m))))
             (messages page_blank) = []"
    by (simp add: ms d1 n2)
  have d2: "replyDrafts page_blank (msgId msg2) = None"
    by (simp add: page_blank_def page0_def msg1_def msg2_def str_def)
  have a: "truthy (session_accessToken session1)"
    by (simp add: session1_def session_accessToken_def truthy_def)
  have b: "p_body payload_no_body = None"
    by (simp add: payload_no_body_def reply_request_def)
  from C1_empty_draft_not_sent [of page_blank msg1 "reply_route (env_of mailbox_ok) session1"]
    d1 f
  have one: "clickSendReply (reply_route (env_of mailbox_ok) session1) msg1 page_blank
               = (page_blank, [])
             \<and> handleAutoAnswerAll (reply_route (env_of mailbox_ok) session1) page_blank
               = (page_blank, [])"
    by simp
  from C1_empty_draft_not_sent [of page_blank msg2 "reply_route (env_of mailbox_ok) session1"
      session1 payload_no_body "env_of mailbox_ok"] d2 a b
  have two: "handleSendReply (reply_route (env_of mailbox_ok) session1) msg2 page_blank
               = (page_blank, [])
             \<and> POST (env_of mailbox_ok) session1 (JsonPayload payload_no_body) =
                (Inr \<lparr>status = 400, json = ErrorJson (str ''Missing required fields'')\<rparr>, [])"
    by (simp add: truthy_def)
  from d one d2 two b show ?thesis
    by blast
qed

text \<open>
  The claim as it was written fails on a draft of three spaces: \<open>handleSendReply\<close> posts
  it, the route accepts it, and the reply is sent and the message marked and removed.
\<close>

theorem C1_blank_draft_counterexample:
  "replyDrafts page_blank (msgId msg1) = Some (str ''   '')
   \<and> trim (str ''   '') = []
   \<and> handleSendReply (reply_route (env_of mailbox_ok) session1) msg1 page_blank =
       (page_blank\<lparr>success := Some (str ''Reply sent to Alex Doe''), messages := [msg2]\<rparr>,
        [MessagesSend (raw_of (str ''   '')) (Some (str ''t1'')),
         MessagesModify (str ''m1'') [str ''UNREAD''] [str ''STARRED'']])
   \<and> POST (env_of mailbox_ok) session1 (JsonPayload payload_blank) =
       (Inr \<lparr>status = 200, json = OkJson\<rparr>,
        [MessagesSend (raw_of (str ''   '')) (Some (str ''t1'')),
         MessagesModify (str ''m1'') [str ''UNREAD''] [str ''STARRED'']])"
  by (simp add: handleSendReply_def reply_route_def POST_def ok_def Let_def
      session1_def session_accessToken_def session_refreshToken_def env_of_def
      mailbox_ok_def truthy_def coalesce_def payload_blank_def raw_of_def
      reply_request_def msg1_def msg2_def page_blank_def page0_def normalizeSubject_def
      startsWith_def trim_def white_space_def str_def)

text \<open>
  C9. When the send for a message succeeds, the page removes the entries with that
  message's identifier from its collection and nothing else: with identifiers unique in
  the collection (as the data model has them), the collection \<open>before @ message # after\<close>
  becomes \<open>before @ after\<close>, every other message kept as it was and in its place.
\<close>

theorem C9_only_answered_removed:
  assumes "truthy (replyDrafts st (msgId message))"
    and "fetch (reply_request message (replyDrafts st (msgId message))) = (Inr response, calls)"
    and "ok response"
    and "messages st = before @ message # after"
    and "distinct (map msgId (messages st))"
  shows "messages (fst (handleSendReply fetch message st))
           = filter (\<lambda>item. msgId item \<noteq> msgId message) (messages st)
         \<and> messages (fst (handleSendReply fetch message st)) = before @ after"
proof -
  have m: "messages (fst (handleSendReply fetch message st))
           = filter (\<lambda>item. msgId item \<noteq> msgId message) (messages st)"
    using assms(1-3) by (simp add: handleSendReply_def Let_def)
  have "\<forall>x\<in>set before \<union> set after. msgId x \<noteq> msgId message"
    using assms(4,5) by (auto simp: image_iff)
  then have "filter (\<lambda>item. msgId item \<noteq> msgId message) (before @ message # after) = before @ after"
    by (simp add: filter_id_conv)
  with m assms(4) show ?thesis by simp
qed

text \<open>Two unread messages are listed and the reply to the first one is accepted.\<close>

theorem C9_only_answered_removed_witness:
  "messages page0 = [msg1, msg2]
   \<and> reply_route (env_of mailbox_ok) session1 (reply_request msg1 (replyDrafts page0 (msgId msg1)))
       = (Inr \<lparr>status = 200, json = OkJson\<rparr>,
          [MessagesSend (raw_of (str ''Thanks, on it.'')) (Some (str ''t1'')),
           MessagesModify (str ''m1'') [str ''UNREAD''] [str ''STARRED'']])
   \<and> messages (fst (handleSendReply (reply_route (env_of mailbox_ok) session1) msg1 page0)) = [msg2]"
proof -
  have f: "reply_route (env_of mailbox_ok) session1 (reply_request msg1 (replyDrafts page0 (msgId msg1)))
       = (Inr \<lparr>status = 200, json = OkJson\<rparr>,
          [MessagesSend (raw_of (str ''Thanks, on it.'')) (Some (str ''t1'')),
           MessagesModify (str ''m1'') [str ''UNREAD''] [str ''STARRED'']])"
    by (simp add: reply_route_def POST_def Let_def session1_def session_accessToken_def
        session_refreshToken_def env_of_def mailbox_ok_def truthy_def coalesce_def raw_of_def
        reply_request_def msg1_def page0_def normalizeSubject_def startsWith_def str_def)
  have d: "truthy (replyDrafts page0 (msgId msg1))"
    by (simp add: page0_def msg1_def truthy_def str_def)
  have o: "ok \<lparr>status = 200, json = OkJson\<rparr>"
    by (simp add: ok_def)
  have l: "messages page0 = [] @ msg1 # [msg2]"
    by (simp add: page0_def)
  have u: "distinct (map msgId (messages page0))"
    by (simp add: page0_def msg1_def msg2_def str_def)
  have "messages (fst (handleSendReply (reply_route (env_of mailbox_ok) session1) msg1 page0))
          = [] @ [msg2]"
    using C9_only_answered_removed [of page0 msg1 "reply_route (env_of mailbox_ok) session1"
        "\<lparr>status = 200, json = OkJson\<rparr>" _ "[]" "[msg2]", OF d f o l u]
    by (rule conjunct2)
  moreover have "messages page0 = [msg1, msg2]"
    by (simp add: page0_def)
  ultimately show ?thesis
    using f by simp
qed


end
